theory Spec2Isabelle
  imports Complex_Main "HOL-Library.Word"
begin

section \<open>Data model of SceneManager.cpp\<close>

text \<open>
  The scene manager owns a fixed array of sixteen texture records, a counter of the
  loaded textures, a vector of materials and a pointer to the shader manager. The
  shader manager, the OpenGL context and the image decoder are collaborators outside
  the file: the shader manager is modelled as the log of the uniform writes it has
  received (oldest first), the OpenGL context as the log of the calls made on it, and
  the decoder by its result. The colours, the UV scale and the material fields are
  \<open>float\<close> values that the operations here pass on unchanged, without arithmetic; they
  are carried as \<open>real\<close>. \<open>SetTransformations\<close>, which computes its matrix in \<open>float\<close>
  arithmetic, is not part of the model.
\<close>

type_synonym GLuint = "32 word"

datatype vec2 = Vec2 real real
datatype vec3 = Vec3 real real real
datatype vec4 = Vec4 real real real real

text \<open>A \<open>glm::mat4\<close> is column-major: four columns, each a \<open>vec4\<close>.\<close>

datatype mat4 = Mat4 vec4 vec4 vec4 vec4

record TEXTURE_INFO =
  ID :: GLuint
  tag :: string

text \<open>The material's \<open>tag\<close> field is named \<open>material_tag\<close> here, since the texture
  record already has a field \<open>tag\<close>.\<close>

record OBJECT_MATERIAL =
  diffuseColor :: vec3
  specularColor :: vec3
  shininess :: real
  material_tag :: string

datatype uniform_value =
    IntValue int
  | BoolValue bool
  | FloatValue real
  | Vec2Value vec2
  | Vec3Value vec3
  | Vec4Value vec4
  | Mat4Value mat4
  | Sampler2DValue int

type_synonym ShaderManager = "(string \<times> uniform_value) list"

datatype gl_call =
    GenTextures GLuint
  | BindTexture GLuint
  | TexParameteri string string
  | TexImage2D string int int
  | GenerateMipmap
  | DeleteTextures GLuint

record image =
  width :: int
  height :: int
  colorChannels :: int

text \<open>What C++ leaves undefined (a write past the end of the texture array, a call
  through a null shader pointer) is a fault of the model.\<close>

datatype fault = ArrayIndexOutOfBounds | NullPointerDereference

record SceneManager =
  m_pShaderManager :: "ShaderManager option"
  m_textureIDs :: "TEXTURE_INFO list"
  m_loadedTextures :: int
  m_objectMaterials :: "OBJECT_MATERIAL list"
  gl :: "gl_call list"

definition g_ModelName :: string where "g_ModelName = ''model''"
definition g_ColorValueName :: string where "g_ColorValueName = ''objectColor''"
definition g_TextureValueName :: string where "g_TextureValueName = ''objectTexture''"
definition g_UseTextureName :: string where "g_UseTextureName = ''bUseTexture''"
definition g_UseLightingName :: string where "g_UseLightingName = ''bUseLighting''"

subsection \<open>The shader manager: a log of uniform writes\<close>

definition setIntValue :: "string \<Rightarrow> int \<Rightarrow> ShaderManager \<Rightarrow> ShaderManager" where
  "setIntValue name v sh = sh @ [(name, IntValue v)]"

definition setFloatValue :: "string \<Rightarrow> real \<Rightarrow> ShaderManager \<Rightarrow> ShaderManager" where
  "setFloatValue name v sh = sh @ [(name, FloatValue v)]"

definition setVec2Value :: "string \<Rightarrow> vec2 \<Rightarrow> ShaderManager \<Rightarrow> ShaderManager" where
  "setVec2Value name v sh = sh @ [(name, Vec2Value v)]"

definition setVec3Value :: "string \<Rightarrow> vec3 \<Rightarrow> ShaderManager \<Rightarrow> ShaderManager" where
  "setVec3Value name v sh = sh @ [(name, Vec3Value v)]"

definition setVec4Value :: "string \<Rightarrow> vec4 \<Rightarrow> ShaderManager \<Rightarrow> ShaderManager" where
  "setVec4Value name v sh = sh @ [(name, Vec4Value v)]"

definition setMat4Value :: "string \<Rightarrow> mat4 \<Rightarrow> ShaderManager \<Rightarrow> ShaderManager" where
  "setMat4Value name v sh = sh @ [(name, Mat4Value v)]"

definition setSampler2DValue :: "string \<Rightarrow> int \<Rightarrow> ShaderManager \<Rightarrow> ShaderManager" where
  "setSampler2DValue name v sh = sh @ [(name, Sampler2DValue v)]"

text \<open>The value a draw call would see for a uniform: the latest write to its name.\<close>

definition currentUniform :: "ShaderManager \<Rightarrow> string \<Rightarrow> uniform_value option" where
  "currentUniform sh name = map_of (rev sh) name"

subsection \<open>The OpenGL context: a log of calls\<close>

fun generatedCount :: "gl_call list \<Rightarrow> nat" where
  "generatedCount [] = 0"
| "generatedCount (GenTextures n # cs) = Suc (generatedCount cs)"
| "generatedCount (c # cs) = generatedCount cs"

text \<open>\<open>glGenTextures(1, &id)\<close> hands out a name that was not in use: names are
  numbered from 1 in the order they are generated.\<close>

definition glGenTextures :: "gl_call list \<Rightarrow> GLuint \<times> gl_call list" where
  "glGenTextures g =
     (let name = word_of_nat (Suc (generatedCount g)) in (name, g @ [GenTextures name]))"

text \<open>The texture names that hold GPU storage after a sequence of calls: generated,
  and not deleted since.\<close>

fun liveTextures_from :: "gl_call list \<Rightarrow> GLuint list \<Rightarrow> GLuint list" where
  "liveTextures_from [] acc = acc"
| "liveTextures_from (c # cs) acc =
     (case c of
        GenTextures n \<Rightarrow> liveTextures_from cs (acc @ [n])
      | DeleteTextures n \<Rightarrow> liveTextures_from cs (removeAll n acc)
      | _ \<Rightarrow> liveTextures_from cs acc)"

definition liveTextures :: "gl_call list \<Rightarrow> GLuint list" where
  "liveTextures g = liveTextures_from g []"

fun deletedTextures :: "gl_call list \<Rightarrow> GLuint list" where
  "deletedTextures [] = []"
| "deletedTextures (c # cs) =
     (case c of
        DeleteTextures n \<Rightarrow> n # deletedTextures cs
      | _ \<Rightarrow> deletedTextures cs)"

section \<open>Construction\<close>

definition SceneManager_new :: "ShaderManager option \<Rightarrow> SceneManager" where
  "SceneManager_new pShaderManager =
     \<lparr> m_pShaderManager = pShaderManager,
       m_textureIDs = replicate 16 \<lparr> ID = - 1, tag = ''/0'' \<rparr>,
       m_loadedTextures = 0,
       m_objectMaterials = [],
       gl = [] \<rparr>"

section \<open>Texture registry\<close>

definition CreateGLTexture ::
  "image option \<Rightarrow> string \<Rightarrow> SceneManager \<Rightarrow> fault + (bool \<times> SceneManager)" where
  "CreateGLTexture decoded tg s =
     (case decoded of
        None \<Rightarrow> Inr (False, s)
      | Some img \<Rightarrow>
          (case glGenTextures (gl s) of (textureID, g0) \<Rightarrow>
             let g1 = g0 @ [BindTexture textureID,
                            TexParameteri ''GL_TEXTURE_WRAP_S'' ''GL_REPEAT'',
                            TexParameteri ''GL_TEXTURE_WRAP_T'' ''GL_REPEAT'',
                            TexParameteri ''GL_TEXTURE_MIN_FILTER'' ''GL_LINEAR'',
                            TexParameteri ''GL_TEXTURE_MAG_FILTER'' ''GL_LINEAR''];
                 n = m_loadedTextures s
             in
               if colorChannels img = 3 \<or> colorChannels img = 4 then
                 (let g2 = g1 @ [TexImage2D (if colorChannels img = 3 then ''GL_RGB8'' else ''GL_RGBA8'')
                                   (width img) (height img),
                                 GenerateMipmap, BindTexture 0]
                  in
                    if 0 \<le> n \<and> n < int (length (m_textureIDs s)) then
                      Inr (True,
                           s\<lparr> m_textureIDs :=
                                (m_textureIDs s)[nat n :=
                                   (m_textureIDs s ! nat n)\<lparr> ID := textureID, tag := tg \<rparr>],
                              m_loadedTextures := n + 1,
                              gl := g2 \<rparr>)
                    else Inl ArrayIndexOutOfBounds)
               else Inr (False, s\<lparr> gl := g1 \<rparr>)))"

function DestroyGLTextures_loop :: "int \<Rightarrow> SceneManager \<Rightarrow> fault + SceneManager" where
  "DestroyGLTextures_loop i s =
     (if i < m_loadedTextures s then
        (if i < 0 \<or> int (length (m_textureIDs s)) \<le> i then Inl ArrayIndexOutOfBounds
         else
           (case glGenTextures (gl s) of (name, g) \<Rightarrow>
              DestroyGLTextures_loop (i + 1)
                (s\<lparr> m_textureIDs :=
                     (m_textureIDs s)[nat i := (m_textureIDs s ! nat i)\<lparr> ID := name \<rparr>],
                   gl := g \<rparr>)))
      else Inr s)"
  by pat_completeness auto
termination
  by (relation "measure (\<lambda>(i, s). nat (m_loadedTextures s - i))") (auto simp: glGenTextures_def Let_def)

declare DestroyGLTextures_loop.simps [simp del]

definition DestroyGLTextures :: "SceneManager \<Rightarrow> fault + SceneManager" where
  "DestroyGLTextures s = DestroyGLTextures_loop 0 s"

function FindTextureSlot_loop ::
  "SceneManager \<Rightarrow> string \<Rightarrow> int \<Rightarrow> bool \<Rightarrow> int \<Rightarrow> fault + int" where
  "FindTextureSlot_loop s tg index bFound textureSlot =
     (if index < m_loadedTextures s \<and> bFound = False then
        (if index < 0 \<or> int (length (m_textureIDs s)) \<le> index then Inl ArrayIndexOutOfBounds
         else if tag (m_textureIDs s ! nat index) = tg
           then FindTextureSlot_loop s tg index True index
           else FindTextureSlot_loop s tg (index + 1) bFound textureSlot)
      else Inr textureSlot)"
  by pat_completeness auto
termination
  by (relation "measure (\<lambda>(s, tg, index, bFound, textureSlot).
        nat (m_loadedTextures s - index) + (if bFound then 0 else 1))") auto

declare FindTextureSlot_loop.simps [simp del]

definition FindTextureSlot :: "SceneManager \<Rightarrow> string \<Rightarrow> fault + int" where
  "FindTextureSlot s tg = FindTextureSlot_loop s tg 0 False (- 1)"

section \<open>Material registry\<close>

function FindMaterial_loop ::
  "OBJECT_MATERIAL list \<Rightarrow> string \<Rightarrow> int \<Rightarrow> bool \<Rightarrow> OBJECT_MATERIAL \<Rightarrow> OBJECT_MATERIAL" where
  "FindMaterial_loop ms tg index bFound material =
     (if index < int (length ms) \<and> bFound = False then
        (if material_tag (ms ! nat index) = tg
           then FindMaterial_loop ms tg index True
                  (material\<lparr> diffuseColor := diffuseColor (ms ! nat index),
                             specularColor := specularColor (ms ! nat index),
                             shininess := shininess (ms ! nat index) \<rparr>)
           else FindMaterial_loop ms tg (index + 1) bFound material)
      else material)"
  by pat_completeness auto
termination
  by (relation "measure (\<lambda>(ms, tg, index, bFound, material).
        nat (int (length ms) - index) + (if bFound then 0 else 1))") auto

declare FindMaterial_loop.simps [simp del]

text \<open>\<open>FindMaterial\<close> returns its \<open>bool\<close> together with the contents of the reference
  parameter \<open>material\<close>, whose contents on entry are an argument.\<close>

definition FindMaterial ::
  "string \<Rightarrow> OBJECT_MATERIAL \<Rightarrow> SceneManager \<Rightarrow> bool \<times> OBJECT_MATERIAL" where
  "FindMaterial tg material s =
     (if length (m_objectMaterials s) = 0 then (False, material)
      else (True, FindMaterial_loop (m_objectMaterials s) tg 0 False material))"

definition DefineObjectMaterials :: "SceneManager \<Rightarrow> SceneManager" where
  "DefineObjectMaterials s =
     (let basketballMaterial =
            \<lparr> diffuseColor = Vec3 0.4 0.4 0.4, specularColor = Vec3 0.7 0.7 0.6,
              shininess = 52.0, material_tag = ''ball'' \<rparr>;
          woodMaterial =
            \<lparr> diffuseColor = Vec3 0.2 0.2 0.3, specularColor = Vec3 0.0 0.0 0.0,
              shininess = 0.1, material_tag = ''wood'' \<rparr>;
          mugMaterial =
            \<lparr> diffuseColor = Vec3 0.8 0.5 0.3, specularColor = Vec3 0.2 0.2 0.2,
              shininess = 10.0, material_tag = ''mug'' \<rparr>;
          metalMaterial =
            \<lparr> diffuseColor = Vec3 0.7 0.7 0.7, specularColor = Vec3 1.0 1.0 1.0,
              shininess = 100.0, material_tag = ''metal'' \<rparr>
      in s\<lparr> m_objectMaterials :=
              m_objectMaterials s @ [basketballMaterial, woodMaterial, mugMaterial, metalMaterial] \<rparr>)"

section \<open>Shader state binder\<close>

definition SetShaderColor :: "real \<Rightarrow> real \<Rightarrow> real \<Rightarrow> real \<Rightarrow> SceneManager \<Rightarrow> SceneManager" where
  "SetShaderColor redColorValue greenColorValue blueColorValue alphaValue s =
     (let currentColor = Vec4 redColorValue greenColorValue blueColorValue alphaValue
      in case m_pShaderManager s of
           None \<Rightarrow> s
         | Some sh \<Rightarrow>
             s\<lparr> m_pShaderManager :=
                  Some (setVec4Value g_ColorValueName currentColor
                         (setIntValue g_UseTextureName 0 sh)) \<rparr>)"

definition SetShaderTexture :: "string \<Rightarrow> SceneManager \<Rightarrow> fault + SceneManager" where
  "SetShaderTexture textureTag s =
     (case m_pShaderManager s of
        None \<Rightarrow> Inr s
      | Some sh \<Rightarrow>
          (case FindTextureSlot s textureTag of
             Inl f \<Rightarrow> Inl f
           | Inr textureID \<Rightarrow>
               Inr (s\<lparr> m_pShaderManager :=
                         Some (setSampler2DValue g_TextureValueName textureID
                                (setIntValue g_UseTextureName 1 sh)) \<rparr>)))"

definition SetTextureUVScale :: "real \<Rightarrow> real \<Rightarrow> SceneManager \<Rightarrow> SceneManager" where
  "SetTextureUVScale u v s =
     (case m_pShaderManager s of
        None \<Rightarrow> s
      | Some sh \<Rightarrow> s\<lparr> m_pShaderManager := Some (setVec2Value ''UVscale'' (Vec2 u v) sh) \<rparr>)"

text \<open>The local \<open>OBJECT_MATERIAL material\<close> of \<open>SetShaderMaterial\<close> is not initialised:
  its contents on entry are the argument \<open>uninitialised\<close>.\<close>

definition SetShaderMaterial ::
  "OBJECT_MATERIAL \<Rightarrow> string \<Rightarrow> SceneManager \<Rightarrow> fault + SceneManager" where
  "SetShaderMaterial uninitialised materialTag s =
     (if length (m_objectMaterials s) > 0 then
        (case FindMaterial materialTag uninitialised s of (bReturn, material) \<Rightarrow>
           if bReturn = True then
             (case m_pShaderManager s of
                None \<Rightarrow> Inl NullPointerDereference
              | Some sh \<Rightarrow>
                  Inr (s\<lparr> m_pShaderManager :=
                            Some (setFloatValue ''material.shininess'' (shininess material)
                                   (setVec3Value ''material.specularColor'' (specularColor material)
                                     (setVec3Value ''material.diffuseColor'' (diffuseColor material)
                                        sh))) \<rparr>))
           else Inr s)
      else Inr s)"

section \<open>Sequences of calls\<close>

text \<open>A run of texture loads, as \<open>LoadSceneTexture\<close> makes them one after the other:
  each load is the decoder's result for its file and the tag. The run returns the tags
  of the loads for which \<open>CreateGLTexture\<close> returned \<open>true\<close>, in order.\<close>

fun LoadTextures ::
  "(image option \<times> string) list \<Rightarrow> SceneManager \<Rightarrow> fault + (string list \<times> SceneManager)" where
  "LoadTextures [] s = Inr ([], s)"
| "LoadTextures ((decoded, tg) # ls) s =
     (case CreateGLTexture decoded tg s of
        Inl f \<Rightarrow> Inl f
      | Inr (bReturn, s') \<Rightarrow>
          (case LoadTextures ls s' of
             Inl f \<Rightarrow> Inl f
           | Inr (tags, s'') \<Rightarrow> Inr ((if bReturn then [tg] else []) @ tags, s'')))"

text \<open>A run of \<open>SetShaderColor\<close> and \<open>SetShaderTexture\<close> calls, as the render
  routines make them before a draw.\<close>

datatype binder_call = ShaderColor real real real real | ShaderTexture string

fun binder_step :: "binder_call \<Rightarrow> SceneManager \<Rightarrow> fault + SceneManager" where
  "binder_step (ShaderColor r g b a) s = Inr (SetShaderColor r g b a s)"
| "binder_step (ShaderTexture textureTag) s = SetShaderTexture textureTag s"

fun binder_calls :: "binder_call list \<Rightarrow> SceneManager \<Rightarrow> fault + SceneManager" where
  "binder_calls [] s = Inr s"
| "binder_calls (c # cs) s =
     (case binder_step c s of Inl f \<Rightarrow> Inl f | Inr s' \<Rightarrow> binder_calls cs s')"

fun texture_mode :: "binder_call \<Rightarrow> int" where
  "texture_mode (ShaderColor r g b a) = 0"
| "texture_mode (ShaderTexture textureTag) = 1"

text \<open>The texture array has its sixteen elements and the counter is within them.\<close>

definition registry_ok :: "SceneManager \<Rightarrow> bool" where
  "registry_ok s \<longleftrightarrow>
     length (m_textureIDs s) = 16 \<and> 0 \<le> m_loadedTextures s \<and> m_loadedTextures s \<le> 16"

section \<open>Properties of the lookups\<close>

subsection \<open>The scan of the texture array\<close>

lemma FindTextureSlot_loop_found [simp]:
  "FindTextureSlot_loop s tg index True textureSlot = Inr textureSlot"
  by (simp add: FindTextureSlot_loop.simps)

lemma FindTextureSlot_loop_none:
  assumes "0 \<le> index" "m_loadedTextures s \<le> int (length (m_textureIDs s))"
    and "\<And>j. nat index \<le> j \<Longrightarrow> int j < m_loadedTextures s \<Longrightarrow> tag (m_textureIDs s ! j) \<noteq> tg"
  shows "FindTextureSlot_loop s tg index False textureSlot = Inr textureSlot"
  using assms
proof (induction "nat (m_loadedTextures s - index)" arbitrary: index)
  case 0
  then show ?case by (simp add: FindTextureSlot_loop.simps)
next
  case (Suc k)
  have neq: "tag (m_textureIDs s ! nat index) \<noteq> tg"
    using Suc.prems(3) [of "nat index"] Suc.hyps(2) Suc.prems(1) by simp
  have rest: "FindTextureSlot_loop s tg (index + 1) False textureSlot = Inr textureSlot"
  proof (rule Suc.hyps(1))
    show "k = nat (m_loadedTextures s - (index + 1))" using Suc.hyps(2) by simp
    show "0 \<le> index + 1" using Suc.prems(1) by simp
    show "m_loadedTextures s \<le> int (length (m_textureIDs s))" by (rule Suc.prems(2))
    fix j assume "nat (index + 1) \<le> j" "int j < m_loadedTextures s"
    then show "tag (m_textureIDs s ! j) \<noteq> tg"
      using Suc.prems(3) [of j] by simp
  qed
  show ?case
    using neq rest Suc.prems(1,2) Suc.hyps(2)
    by (subst FindTextureSlot_loop.simps) simp
qed

lemma FindTextureSlot_loop_first:
  assumes "0 \<le> index" "m_loadedTextures s \<le> int (length (m_textureIDs s))"
    and "nat index \<le> k" "int k < m_loadedTextures s" "tag (m_textureIDs s ! k) = tg"
    and "\<And>j. nat index \<le> j \<Longrightarrow> j < k \<Longrightarrow> tag (m_textureIDs s ! j) \<noteq> tg"
  shows "FindTextureSlot_loop s tg index False textureSlot = Inr (int k)"
  using assms
proof (induction "k - nat index" arbitrary: index)
  case 0
  then have "nat index = k" by simp
  then have ik: "index = int k" using "0.prems"(1) by simp
  show ?case
    using "0.prems" ik by (subst FindTextureSlot_loop.simps) simp
next
  case (Suc d)
  have lt: "nat index < k" using Suc.hyps(2) by simp
  have neq: "tag (m_textureIDs s ! nat index) \<noteq> tg"
    using Suc.prems(6) [of "nat index"] lt by simp
  have rest: "FindTextureSlot_loop s tg (index + 1) False textureSlot = Inr (int k)"
  proof (rule Suc.hyps(1))
    show "d = k - nat (index + 1)" using Suc.hyps(2) Suc.prems(1) by simp
    show "0 \<le> index + 1" using Suc.prems(1) by simp
    show "m_loadedTextures s \<le> int (length (m_textureIDs s))" by (rule Suc.prems(2))
    show "nat (index + 1) \<le> k" using lt Suc.prems(1) by simp
    show "int k < m_loadedTextures s" by (rule Suc.prems(4))
    show "tag (m_textureIDs s ! k) = tg" by (rule Suc.prems(5))
    fix j assume "nat (index + 1) \<le> j" "j < k"
    then show "tag (m_textureIDs s ! j) \<noteq> tg"
      using Suc.prems(6) [of j] by simp
  qed
  have inb: "index < m_loadedTextures s" using lt Suc.prems(1,4) by linarith
  show ?case
    using neq rest inb Suc.prems(1,2)
    by (subst FindTextureSlot_loop.simps) simp
qed

lemma FindTextureSlot_absent:
  assumes "registry_ok s"
    and "\<And>j. int j < m_loadedTextures s \<Longrightarrow> tag (m_textureIDs s ! j) \<noteq> tg"
  shows "FindTextureSlot s tg = Inr (- 1)"
  unfolding FindTextureSlot_def
  by (rule FindTextureSlot_loop_none) (use assms in \<open>simp_all add: registry_ok_def\<close>)

lemma FindTextureSlot_present:
  assumes "registry_ok s" and "int k < m_loadedTextures s" and "tag (m_textureIDs s ! k) = tg"
    and "\<And>j. j < k \<Longrightarrow> tag (m_textureIDs s ! j) \<noteq> tg"
  shows "FindTextureSlot s tg = Inr (int k)"
  unfolding FindTextureSlot_def
  by (rule FindTextureSlot_loop_first) (use assms in \<open>simp_all add: registry_ok_def\<close>)

lemma FindTextureSlot_cases:
  assumes ok: "registry_ok s"
  obtains (absent) "FindTextureSlot s tg = Inr (- 1)"
      and "\<And>j. int j < m_loadedTextures s \<Longrightarrow> tag (m_textureIDs s ! j) \<noteq> tg"
  | (present) k where "FindTextureSlot s tg = Inr (int k)" and "int k < m_loadedTextures s"
      and "tag (m_textureIDs s ! k) = tg"
      and "\<And>j. j < k \<Longrightarrow> tag (m_textureIDs s ! j) \<noteq> tg"
proof (cases "\<exists>j. int j < m_loadedTextures s \<and> tag (m_textureIDs s ! j) = tg")
  case False
  then have none: "\<And>j. int j < m_loadedTextures s \<Longrightarrow> tag (m_textureIDs s ! j) \<noteq> tg"
    by blast
  with ok have "FindTextureSlot s tg = Inr (- 1)" by (rule FindTextureSlot_absent)
  then show thesis using none by (rule absent)
next
  case True
  define P where "P j \<longleftrightarrow> int j < m_loadedTextures s \<and> tag (m_textureIDs s ! j) = tg" for j
  from True have ex: "\<exists>j. P j" by (simp add: P_def)
  define k where "k = (LEAST j. P j)"
  have Pk: "P k" unfolding k_def using ex by (rule LeastI_ex)
  have least: "\<not> P j" if "j < k" for j
    using that not_less_Least unfolding k_def by blast
  have before: "tag (m_textureIDs s ! j) \<noteq> tg" if "j < k" for j
  proof -
    from that Pk have "int j < m_loadedTextures s" by (simp add: P_def)
    with least [OF that] show ?thesis by (simp add: P_def)
  qed
  have "FindTextureSlot s tg = Inr (int k)"
    by (rule FindTextureSlot_present) (use ok Pk before in \<open>simp_all add: P_def\<close>)
  then show thesis
    using Pk before by (intro present [of k]) (simp_all add: P_def)
qed

subsection \<open>The scan of the material vector\<close>

lemma FindMaterial_loop_found [simp]:
  "FindMaterial_loop ms tg index True material = material"
  by (simp add: FindMaterial_loop.simps)

lemma FindMaterial_loop_none:
  assumes "0 \<le> index"
    and "\<And>j. nat index \<le> j \<Longrightarrow> j < length ms \<Longrightarrow> material_tag (ms ! j) \<noteq> tg"
  shows "FindMaterial_loop ms tg index False material = material"
  using assms
proof (induction "length ms - nat index" arbitrary: index)
  case 0
  then have "\<not> index < int (length ms)" by linarith
  then show ?case by (subst FindMaterial_loop.simps) simp
next
  case (Suc k)
  have neq: "material_tag (ms ! nat index) \<noteq> tg"
    using Suc.prems(2) [of "nat index"] Suc.hyps(2) by simp
  have rest: "FindMaterial_loop ms tg (index + 1) False material = material"
  proof (rule Suc.hyps(1))
    show "k = length ms - nat (index + 1)" using Suc.hyps(2) Suc.prems(1) by simp
    show "0 \<le> index + 1" using Suc.prems(1) by simp
    fix j assume "nat (index + 1) \<le> j" "j < length ms"
    then show "material_tag (ms ! j) \<noteq> tg"
      using Suc.prems(2) [of j] by simp
  qed
  show ?case
    using neq rest by (subst FindMaterial_loop.simps) simp
qed

lemma FindMaterial_loop_first:
  assumes "0 \<le> index" "nat index \<le> k" "k < length ms" "material_tag (ms ! k) = tg"
    and "\<And>j. nat index \<le> j \<Longrightarrow> j < k \<Longrightarrow> material_tag (ms ! j) \<noteq> tg"
  shows "FindMaterial_loop ms tg index False material =
           material\<lparr> diffuseColor := diffuseColor (ms ! k),
                      specularColor := specularColor (ms ! k),
                      shininess := shininess (ms ! k) \<rparr>"
  using assms
proof (induction "k - nat index" arbitrary: index)
  case 0
  then have "nat index = k" by simp
  then have ik: "index = int k" using "0.prems"(1) by simp
  show ?case
    using "0.prems" ik by (subst FindMaterial_loop.simps) simp
next
  case (Suc d)
  have lt: "nat index < k" using Suc.hyps(2) by simp
  have neq: "material_tag (ms ! nat index) \<noteq> tg"
    using Suc.prems(5) [of "nat index"] lt by simp
  have rest: "FindMaterial_loop ms tg (index + 1) False material =
           material\<lparr> diffuseColor := diffuseColor (ms ! k),
                      specularColor := specularColor (ms ! k),
                      shininess := shininess (ms ! k) \<rparr>"
  proof (rule Suc.hyps(1))
    show "d = k - nat (index + 1)" using Suc.hyps(2) Suc.prems(1) by simp
    show "0 \<le> index + 1" using Suc.prems(1) by simp
    show "nat (index + 1) \<le> k" using lt Suc.prems(1) by simp
    show "k < length ms" by (rule Suc.prems(3))
    show "material_tag (ms ! k) = tg" by (rule Suc.prems(4))
    fix j assume "nat (index + 1) \<le> j" "j < k"
    then show "material_tag (ms ! j) \<noteq> tg"
      using Suc.prems(5) [of j] by simp
  qed
  have inb: "index < int (length ms)" using lt Suc.prems(1,3) by linarith
  show ?case
    using neq rest inb by (subst FindMaterial_loop.simps) simp
qed

lemma FindMaterial_loop_absent:
  assumes "tg \<notin> set (map material_tag ms)"
  shows "FindMaterial_loop ms tg 0 False material = material"
proof (rule FindMaterial_loop_none)
  show "(0::int) \<le> 0" by simp
  fix j assume "j < length ms"
  then have "material_tag (ms ! j) \<in> set (map material_tag ms)" by simp
  with assms show "material_tag (ms ! j) \<noteq> tg" by metis
qed

lemma FindMaterial_empty:
  "m_objectMaterials s = [] \<Longrightarrow> FindMaterial tg material s = (False, material)"
  by (simp add: FindMaterial_def)

lemma FindMaterial_nonempty_returns_true:
  "m_objectMaterials s \<noteq> [] \<Longrightarrow> fst (FindMaterial tg material s) = True"
  by (simp add: FindMaterial_def)

lemma DefineObjectMaterials_tags:
  "map material_tag (m_objectMaterials (DefineObjectMaterials s)) =
     map material_tag (m_objectMaterials s) @ [''ball'', ''wood'', ''mug'', ''metal'']"
  by (simp add: DefineObjectMaterials_def Let_def)

lemma DefineObjectMaterials_nonempty: "m_objectMaterials (DefineObjectMaterials s) \<noteq> []"
  by (simp add: DefineObjectMaterials_def Let_def)

lemma DefineObjectMaterials_shader [simp]:
  "m_pShaderManager (DefineObjectMaterials s) = m_pShaderManager s"
  by (simp add: DefineObjectMaterials_def Let_def)

lemma SceneManager_new_materials [simp]: "m_objectMaterials (SceneManager_new sh) = []"
  by (simp add: SceneManager_new_def)

lemma SceneManager_new_shader [simp]: "m_pShaderManager (SceneManager_new sh) = sh"
  by (simp add: SceneManager_new_def)

lemma SceneManager_new_loaded [simp]: "m_loadedTextures (SceneManager_new sh) = 0"
  by (simp add: SceneManager_new_def)

lemma SceneManager_new_registry_ok: "registry_ok (SceneManager_new sh)"
  by (simp add: registry_ok_def SceneManager_new_def)

text \<open>
  C1. A lookup with no matching entry is to report "not found": \<open>FindTextureSlot\<close>
  does (\<open>FindTextureSlot_absent\<close>: the sentinel \<open>-1\<close>, and no fault), and so does
  \<open>FindMaterial\<close> on an empty vector (\<open>FindMaterial_empty\<close>). On a vector that has
  entries, \<open>FindMaterial\<close> ends with \<open>return(true)\<close> whatever \<open>bFound\<close> holds: with
  the four materials of \<open>DefineObjectMaterials\<close> and the tag \<open>glass\<close>, which none of
  them has, it returns \<open>true\<close> and leaves the caller's \<open>material\<close> as it was.
\<close>

theorem FindMaterial_unmatched_returns_true:
  "FindMaterial ''glass'' material (DefineObjectMaterials (SceneManager_new sh)) = (True, material)"
proof -
  let ?s = "DefineObjectMaterials (SceneManager_new sh)"
  have tags: "map material_tag (m_objectMaterials ?s) = [''ball'', ''wood'', ''mug'', ''metal'']"
    by (simp add: DefineObjectMaterials_tags)
  have len: "length (m_objectMaterials ?s) = 4"
    using arg_cong [OF tags, of length] by simp
  have "''glass'' \<notin> set (map material_tag (m_objectMaterials ?s))"
    unfolding tags by simp
  then have "FindMaterial_loop (m_objectMaterials ?s) ''glass'' 0 False material = material"
    by (rule FindMaterial_loop_absent)
  then show ?thesis
    using len by (simp add: FindMaterial_def)
qed

text \<open>
  C9. When two entries of the material vector have the same tag, and no entry before
  the first of them has it, \<open>FindMaterial\<close> returns \<open>true\<close> and copies the diffuse
  colour, the specular colour and the shininess of the first of the two.
\<close>

theorem FindMaterial_first_of_duplicates:
  assumes ms: "m_objectMaterials s = xs @ a # ys @ b # zs"
    and a: "material_tag a = tg" and b: "material_tag b = tg"
    and xs: "\<forall>x \<in> set xs. material_tag x \<noteq> tg"
  shows "FindMaterial tg material s =
           (True, material\<lparr> diffuseColor := diffuseColor a,
                            specularColor := specularColor a,
                            shininess := shininess a \<rparr>)"
proof -
  let ?ms = "m_objectMaterials s"
  have k: "length xs < length ?ms" and at: "?ms ! length xs = a"
    using ms by simp_all
  have before: "material_tag (?ms ! j) \<noteq> tg" if "j < length xs" for j
    using that xs ms by (simp add: nth_append)
  have "FindMaterial_loop ?ms tg 0 False material =
          material\<lparr> diffuseColor := diffuseColor (?ms ! length xs),
                     specularColor := specularColor (?ms ! length xs),
                     shininess := shininess (?ms ! length xs) \<rparr>"
    by (rule FindMaterial_loop_first) (use k at a before in simp_all)
  then show ?thesis
    using ms at by (simp add: FindMaterial_def)
qed

theorem FindMaterial_first_of_duplicates_witness:
  "FindMaterial ''ball''
     \<lparr> diffuseColor = Vec3 0 0 0, specularColor = Vec3 0 0 0, shininess = 0, material_tag = '''' \<rparr>
     ((SceneManager_new None)
        \<lparr> m_objectMaterials :=
             [\<lparr> diffuseColor = Vec3 1 0 0, specularColor = Vec3 1 1 1, shininess = 52,
                material_tag = ''ball'' \<rparr>,
              \<lparr> diffuseColor = Vec3 0 1 0, specularColor = Vec3 0 0 0, shininess = 10,
                material_tag = ''ball'' \<rparr>] \<rparr>) =
   (True, \<lparr> diffuseColor = Vec3 1 0 0, specularColor = Vec3 1 1 1, shininess = 52,
            material_tag = '''' \<rparr>)"
  using FindMaterial_first_of_duplicates
          [of "(SceneManager_new None)
                 \<lparr> m_objectMaterials :=
                      [\<lparr> diffuseColor = Vec3 1 0 0, specularColor = Vec3 1 1 1, shininess = 52,
                         material_tag = ''ball'' \<rparr>,
                       \<lparr> diffuseColor = Vec3 0 1 0, specularColor = Vec3 0 0 0, shininess = 10,
                         material_tag = ''ball'' \<rparr>] \<rparr>"
              "[]"
              "\<lparr> diffuseColor = Vec3 1 0 0, specularColor = Vec3 1 1 1, shininess = 52,
                 material_tag = ''ball'' \<rparr>"
              "[]"
              "\<lparr> diffuseColor = Vec3 0 1 0, specularColor = Vec3 0 0 0, shininess = 10,
                 material_tag = ''ball'' \<rparr>"
              "[]" "''ball''"
              "\<lparr> diffuseColor = Vec3 0 0 0, specularColor = Vec3 0 0 0, shininess = 0,
                 material_tag = '''' \<rparr>"]
  by simp

section \<open>Properties of the texture registry\<close>

lemma CreateGLTexture_True_D:
  assumes "CreateGLTexture decoded tg s = Inr (True, s')"
  shows "0 \<le> m_loadedTextures s" and "m_loadedTextures s < int (length (m_textureIDs s))"
    and "m_loadedTextures s' = m_loadedTextures s + 1"
    and "m_textureIDs s' =
           (m_textureIDs s)[nat (m_loadedTextures s) :=
              (m_textureIDs s ! nat (m_loadedTextures s))
                \<lparr> ID := fst (glGenTextures (gl s)), tag := tg \<rparr>]"
    and "m_pShaderManager s' = m_pShaderManager s"
    and "m_objectMaterials s' = m_objectMaterials s"
    and "\<exists>img. decoded = Some img \<and> (colorChannels img = 3 \<or> colorChannels img = 4)"
  using assms
  by (auto simp: CreateGLTexture_def Let_def split: option.splits prod.splits if_splits)

lemma CreateGLTexture_False_D:
  assumes "CreateGLTexture decoded tg s = Inr (False, s')"
  shows "m_loadedTextures s' = m_loadedTextures s" and "m_textureIDs s' = m_textureIDs s"
    and "m_pShaderManager s' = m_pShaderManager s"
    and "m_objectMaterials s' = m_objectMaterials s"
  using assms
  by (auto simp: CreateGLTexture_def Let_def split: option.splits prod.splits if_splits)

lemma CreateGLTexture_registry_ok:
  assumes "CreateGLTexture decoded tg s = Inr (b, s')" and "registry_ok s"
  shows "registry_ok s'"
proof (cases b)
  case True
  with assms CreateGLTexture_True_D [of decoded tg s s'] show ?thesis
    by (simp add: registry_ok_def)
next
  case False
  with assms CreateGLTexture_False_D [of decoded tg s s'] show ?thesis
    by (simp add: registry_ok_def)
qed

lemma CreateGLTexture_total:
  assumes "registry_ok s" and "m_loadedTextures s < 16"
  shows "\<exists>b s'. CreateGLTexture decoded tg s = Inr (b, s') \<and>
                m_loadedTextures s' \<le> m_loadedTextures s + 1"
  using assms
  by (cases decoded)
    (auto simp: CreateGLTexture_def Let_def glGenTextures_def registry_ok_def)

lemma LoadTextures_registry:
  assumes "LoadTextures ls s0 = Inr (tags, s)" and "registry_ok s0"
  shows "registry_ok s \<and>
         m_loadedTextures s = m_loadedTextures s0 + int (length tags) \<and>
         (\<forall>i < nat (m_loadedTextures s0). m_textureIDs s ! i = m_textureIDs s0 ! i) \<and>
         (\<forall>j < length tags. tag (m_textureIDs s ! (nat (m_loadedTextures s0) + j)) = tags ! j)"
  using assms
proof (induction ls arbitrary: s0 tags)
  case Nil
  then show ?case by simp
next
  case (Cons l ls)
  obtain decoded tg where l: "l = (decoded, tg)" by (cases l)
  from Cons.prems(1) l obtain b s1 tags1 where
    step: "CreateGLTexture decoded tg s0 = Inr (b, s1)"
    and rest: "LoadTextures ls s1 = Inr (tags1, s)"
    and tags: "tags = (if b then [tg] else []) @ tags1"
    by (auto split: sum.splits prod.splits)
  have ok1: "registry_ok s1"
    using step Cons.prems(2) by (rule CreateGLTexture_registry_ok)
  note IH = Cons.IH [OF rest ok1]
  show ?case
  proof (cases b)
    case False
    with step have "m_loadedTextures s1 = m_loadedTextures s0" "m_textureIDs s1 = m_textureIDs s0"
      by (simp_all add: CreateGLTexture_False_D)
    with IH tags False show ?thesis by simp
  next
    case True
    let ?n = "m_loadedTextures s0"
    from step True have st: "CreateGLTexture decoded tg s0 = Inr (True, s1)" by simp
    note D = CreateGLTexture_True_D [OF st]
    have n1: "nat (m_loadedTextures s1) = Suc (nat ?n)"
      using D(1,3) by simp
    have old: "m_textureIDs s1 ! i = m_textureIDs s0 ! i" if "i < nat ?n" for i
      using that D(4) by simp
    have new: "tag (m_textureIDs s1 ! nat ?n) = tg"
      using D(1,2,4) by simp
    have a: "m_loadedTextures s = ?n + int (length tags)"
      using IH D(3) tags True by simp
    have b: "m_textureIDs s ! i = m_textureIDs s0 ! i" if "i < nat ?n" for i
      using that IH old n1 by simp
    have c: "tag (m_textureIDs s ! (nat ?n + j)) = tags ! j" if "j < length tags" for j
    proof (cases j)
      case 0
      have "m_textureIDs s ! nat ?n = m_textureIDs s1 ! nat ?n"
        using IH n1 by simp
      with new 0 tags True show ?thesis by simp
    next
      case (Suc j')
      with that tags True have "j' < length tags1" by simp
      with IH have "tag (m_textureIDs s ! (nat (m_loadedTextures s1) + j')) = tags1 ! j'"
        by simp
      with Suc n1 tags True show ?thesis by simp
    qed
    from IH a b c show ?thesis by simp
  qed
qed

lemma LoadTextures_total:
  assumes "registry_ok s" and "m_loadedTextures s + int (length ls) \<le> 16"
  shows "\<exists>tags s'. LoadTextures ls s = Inr (tags, s')"
  using assms
proof (induction ls arbitrary: s)
  case Nil
  then show ?case by simp
next
  case (Cons l ls)
  obtain decoded tg where l: "l = (decoded, tg)" by (cases l)
  from Cons.prems have "m_loadedTextures s < 16" by simp
  from CreateGLTexture_total [OF Cons.prems(1) this, of decoded tg]
  obtain b s1 where step: "CreateGLTexture decoded tg s = Inr (b, s1)"
    and n1: "m_loadedTextures s1 \<le> m_loadedTextures s + 1" by blast
  have ok1: "registry_ok s1"
    using step Cons.prems(1) by (rule CreateGLTexture_registry_ok)
  from n1 Cons.prems(2) have "m_loadedTextures s1 + int (length ls) \<le> 16" by simp
  from Cons.IH [OF ok1 this] obtain tags s' where "LoadTextures ls s1 = Inr (tags, s')"
    by blast
  with step l show ?case by simp
qed

text \<open>
  C5. Start from a new scene manager and run any sequence of loads. Let \<open>tags\<close> be
  the tags of the loads for which \<open>CreateGLTexture\<close> returned \<open>true\<close>, in order. For
  the \<open>k\<close>-th of them (counted from 0), if its tag differs from the tags of the
  successful loads before it, \<open>FindTextureSlot\<close> of that tag returns \<open>k\<close>. (By
  \<open>LoadTextures_total\<close> the run has a result whenever at most sixteen loads are made.)
\<close>

theorem FindTextureSlot_insertion_order:
  assumes run: "LoadTextures ls (SceneManager_new sh) = Inr (tags, s)"
    and k: "k < length tags"
    and distinct: "tags ! k \<notin> set (take k tags)"
  shows "FindTextureSlot s (tags ! k) = Inr (int k)"
proof -
  note R = LoadTextures_registry [OF run SceneManager_new_registry_ok]
  have loaded: "m_loadedTextures s = int (length tags)"
    using R by simp
  have tagat: "tag (m_textureIDs s ! j) = tags ! j" if "j < length tags" for j
    using R that by simp
  have ok: "registry_ok s" using R by simp
  have earlier: "tag (m_textureIDs s ! j) \<noteq> tags ! k" if "j < k" for j
  proof -
    from that k have "tags ! j \<in> set (take k tags)"
      by (auto simp: in_set_conv_nth)
    with distinct have "tags ! j \<noteq> tags ! k" by metis
    with that k tagat [of j] show ?thesis by simp
  qed
  show ?thesis
    unfolding FindTextureSlot_def
    by (rule FindTextureSlot_loop_first)
      (use ok loaded k tagat earlier in \<open>simp_all add: registry_ok_def\<close>)
qed

theorem FindTextureSlot_insertion_order_witness:
  "\<exists>s. LoadTextures [(Some \<lparr> width = 8, height = 8, colorChannels = 3 \<rparr>, ''table''),
                      (None, ''wall''),
                      (Some \<lparr> width = 8, height = 8, colorChannels = 1 \<rparr>, ''window''),
                      (Some \<lparr> width = 8, height = 8, colorChannels = 4 \<rparr>, ''ball'')]
         (SceneManager_new None) = Inr ([''table'', ''ball''], s) \<and>
       FindTextureSlot s ''ball'' = Inr 1"
proof -
  have "\<exists>s. LoadTextures [(Some \<lparr> width = 8, height = 8, colorChannels = 3 \<rparr>, ''table''),
                      (None, ''wall''),
                      (Some \<lparr> width = 8, height = 8, colorChannels = 1 \<rparr>, ''window''),
                      (Some \<lparr> width = 8, height = 8, colorChannels = 4 \<rparr>, ''ball'')]
         (SceneManager_new None) = Inr ([''table'', ''ball''], s)"
    by (simp add: CreateGLTexture_def Let_def glGenTextures_def SceneManager_new_def)
  then obtain s where run:
    "LoadTextures [(Some \<lparr> width = 8, height = 8, colorChannels = 3 \<rparr>, ''table''),
                      (None, ''wall''),
                      (Some \<lparr> width = 8, height = 8, colorChannels = 1 \<rparr>, ''window''),
                      (Some \<lparr> width = 8, height = 8, colorChannels = 4 \<rparr>, ''ball'')]
         (SceneManager_new None) = Inr ([''table'', ''ball''], s)" ..
  from FindTextureSlot_insertion_order [OF run, of 1]
  have "FindTextureSlot s ''ball'' = Inr 1" by simp
  with run show ?thesis by blast
qed

text \<open>
  C6. When the decoder returns an image whose channel count is neither 3 nor 4,
  \<open>CreateGLTexture\<close> returns \<open>false\<close>, and the counter of loaded textures and the
  whole texture array are as before.
\<close>

theorem CreateGLTexture_unsupported_channels:
  assumes "colorChannels img \<noteq> 3" and "colorChannels img \<noteq> 4"
  shows "\<exists>s'. CreateGLTexture (Some img) tg s = Inr (False, s') \<and>
              m_loadedTextures s' = m_loadedTextures s \<and>
              m_textureIDs s' = m_textureIDs s"
  using assms
  by (simp add: CreateGLTexture_def Let_def split: prod.splits)

theorem CreateGLTexture_unsupported_channels_witness:
  "\<exists>s'. CreateGLTexture (Some \<lparr> width = 8, height = 8, colorChannels = 1 \<rparr>) ''table''
            (SceneManager_new None) = Inr (False, s') \<and>
         m_loadedTextures s' = 0 \<and>
         m_textureIDs s' = replicate 16 \<lparr> ID = - 1, tag = ''/0'' \<rparr>"
  using CreateGLTexture_unsupported_channels
          [of "\<lparr> width = 8, height = 8, colorChannels = 1 \<rparr>" "''table''" "SceneManager_new None"]
  by (simp add: SceneManager_new_def)

text \<open>
  C10. With \<open>n < 16\<close> textures loaded, a call of \<open>CreateGLTexture\<close> that returns
  \<open>true\<close> only appends: the counter becomes \<open>n + 1\<close>, the tag and the GPU handle of
  each of the first \<open>n\<close> entries are unchanged, and every tag that resolved to a slot
  before the call resolves to the same slot, holding the same handle, after it.
\<close>

theorem CreateGLTexture_appends:
  assumes len: "length (m_textureIDs s) = 16"
    and n: "0 \<le> m_loadedTextures s" "m_loadedTextures s < 16"
    and load: "CreateGLTexture decoded tg s = Inr (True, s')"
  shows "m_loadedTextures s' = m_loadedTextures s + 1 \<and>
         length (m_textureIDs s') = 16 \<and>
         (\<forall>i. int i < m_loadedTextures s \<longrightarrow>
            tag (m_textureIDs s' ! i) = tag (m_textureIDs s ! i) \<and>
            ID (m_textureIDs s' ! i) = ID (m_textureIDs s ! i)) \<and>
         (\<forall>t k. 0 \<le> k \<and> FindTextureSlot s t = Inr k \<longrightarrow>
            FindTextureSlot s' t = Inr k \<and>
            ID (m_textureIDs s' ! nat k) = ID (m_textureIDs s ! nat k))"
proof -
  note D = CreateGLTexture_True_D [OF load]
  have ok: "registry_ok s" using len n by (simp add: registry_ok_def)
  have ok': "registry_ok s'" using load ok by (rule CreateGLTexture_registry_ok)
  have same: "m_textureIDs s' ! i = m_textureIDs s ! i" if "int i < m_loadedTextures s" for i
  proof -
    from that n have "i \<noteq> nat (m_loadedTextures s)" by linarith
    then show ?thesis using D(4) by simp
  qed
  have slots: "FindTextureSlot s' t = Inr k \<and>
        ID (m_textureIDs s' ! nat k) = ID (m_textureIDs s ! nat k)"
    if k: "0 \<le> k" and found: "FindTextureSlot s t = Inr k" for t k
  proof (rule FindTextureSlot_cases [OF ok, of t])
    assume "FindTextureSlot s t = Inr (- 1)"
    with found k show ?thesis by simp
  next
    fix j
    assume j: "FindTextureSlot s t = Inr (int j)" "int j < m_loadedTextures s"
      "tag (m_textureIDs s ! j) = t" "\<And>i. i < j \<Longrightarrow> tag (m_textureIDs s ! i) \<noteq> t"
    from j(1) found have kj: "k = int j" by simp
    have "FindTextureSlot s' t = Inr (int j)"
    proof (rule FindTextureSlot_present [OF ok'])
      show "int j < m_loadedTextures s'" using j(2) D(3) by simp
      show "tag (m_textureIDs s' ! j) = t" using same [OF j(2)] j(3) by simp
      fix i assume "i < j"
      with j(2) have "int i < m_loadedTextures s" by simp
      with same [of i] j(4) [OF \<open>i < j\<close>] show "tag (m_textureIDs s' ! i) \<noteq> t" by simp
    qed
    with kj same [OF j(2)] show ?thesis by simp
  qed
  have len': "length (m_textureIDs s') = 16"
    using D(4) len by simp
  show ?thesis
  proof (intro conjI allI impI)
    show "m_loadedTextures s' = m_loadedTextures s + 1" by (rule D(3))
    show "length (m_textureIDs s') = 16" by (rule len')
  next
    fix i assume "int i < m_loadedTextures s"
    then have eq: "m_textureIDs s' ! i = m_textureIDs s ! i" by (rule same)
    show "tag (m_textureIDs s' ! i) = tag (m_textureIDs s ! i)" by (simp only: eq)
    show "ID (m_textureIDs s' ! i) = ID (m_textureIDs s ! i)" by (simp only: eq)
  next
    fix t k assume a: "0 \<le> k \<and> FindTextureSlot s t = Inr k"
    then have b: "FindTextureSlot s' t = Inr k \<and>
        ID (m_textureIDs s' ! nat k) = ID (m_textureIDs s ! nat k)"
      using slots [of k t] by (elim conjE)
    from b show "FindTextureSlot s' t = Inr k" by (rule conjunct1)
    from b show "ID (m_textureIDs s' ! nat k) = ID (m_textureIDs s ! nat k)" by (rule conjunct2)
  qed
qed

theorem CreateGLTexture_appends_witness:
  "\<exists>s1 s2. CreateGLTexture (Some \<lparr> width = 8, height = 8, colorChannels = 3 \<rparr>) ''table''
              (SceneManager_new None) = Inr (True, s1) \<and>
           CreateGLTexture (Some \<lparr> width = 8, height = 8, colorChannels = 4 \<rparr>) ''wall'' s1 =
              Inr (True, s2) \<and>
           m_loadedTextures s1 = 1 \<and> m_loadedTextures s2 = 2 \<and>
           FindTextureSlot s1 ''table'' = Inr 0 \<and> FindTextureSlot s2 ''table'' = Inr 0 \<and>
           ID (m_textureIDs s2 ! 0) = ID (m_textureIDs s1 ! 0)"
proof -
  have "\<exists>s1. CreateGLTexture (Some \<lparr> width = 8, height = 8, colorChannels = 3 \<rparr>) ''table''
              (SceneManager_new None) = Inr (True, s1)"
    by (simp add: CreateGLTexture_def Let_def glGenTextures_def SceneManager_new_def)
  then obtain s1 where c1: "CreateGLTexture (Some \<lparr> width = 8, height = 8, colorChannels = 3 \<rparr>)
       ''table'' (SceneManager_new None) = Inr (True, s1)" ..
  note D1 = CreateGLTexture_True_D [OF c1]
  have ok1: "registry_ok s1"
    using c1 SceneManager_new_registry_ok by (rule CreateGLTexture_registry_ok)
  have n1: "m_loadedTextures s1 = 1" using D1(3) by simp
  have t1: "tag (m_textureIDs s1 ! 0) = ''table''"
    using D1(4) by (simp add: SceneManager_new_def)
  have f1: "FindTextureSlot s1 ''table'' = Inr 0"
    using FindTextureSlot_present [OF ok1, of 0 "''table''"] n1 t1 by simp
  have "\<exists>s2. CreateGLTexture (Some \<lparr> width = 8, height = 8, colorChannels = 4 \<rparr>) ''wall'' s1 =
              Inr (True, s2)"
    using ok1 n1 by (simp add: CreateGLTexture_def Let_def glGenTextures_def registry_ok_def)
  then obtain s2 where c2: "CreateGLTexture (Some \<lparr> width = 8, height = 8, colorChannels = 4 \<rparr>)
       ''wall'' s1 = Inr (True, s2)" ..
  have len1: "length (m_textureIDs s1) = 16" using ok1 by (simp add: registry_ok_def)
  from CreateGLTexture_appends [OF len1 _ _ c2] n1 f1
  have "m_loadedTextures s2 = 2 \<and> FindTextureSlot s2 ''table'' = Inr 0 \<and>
        ID (m_textureIDs s2 ! 0) = ID (m_textureIDs s1 ! 0)"
    by simp
  with c1 c2 n1 f1 show ?thesis by blast
qed

lemma deletedTextures_append [simp]:
  "deletedTextures (g @ h) = deletedTextures g @ deletedTextures h"
  by (induction g) (auto split: gl_call.splits)

lemma DestroyGLTextures_loop_never_deletes:
  "DestroyGLTextures_loop i s = Inr s' \<Longrightarrow> deletedTextures (gl s') = deletedTextures (gl s)"
proof (induction i s rule: DestroyGLTextures_loop.induct)
  case (1 i s)
  show ?case
  proof (cases "i < m_loadedTextures s")
    case False
    with "1.prems" show ?thesis by (simp add: DestroyGLTextures_loop.simps)
  next
    case True
    show ?thesis
    proof (cases "i < 0 \<or> int (length (m_textureIDs s)) \<le> i")
      case True
      with \<open>i < m_loadedTextures s\<close> "1.prems" show ?thesis
        by (simp add: DestroyGLTextures_loop.simps [of i s])
    next
      case False
      obtain name g where gen: "glGenTextures (gl s) = (name, g)" by (cases "glGenTextures (gl s)")
      let ?s1 = "s\<lparr> m_textureIDs := (m_textureIDs s)[nat i := (m_textureIDs s ! nat i)\<lparr> ID := name \<rparr>], gl := g \<rparr>"
      have run: "DestroyGLTextures_loop (i + 1) ?s1 = Inr s'"
        using "1.prems" True False gen by (simp add: DestroyGLTextures_loop.simps [of i s])
      have "deletedTextures (gl s') = deletedTextures (gl ?s1)"
        using "1.IH" [OF True False gen [symmetric] run] .
      also have "\<dots> = deletedTextures (gl s)"
        using gen by (auto simp: glGenTextures_def Let_def)
      finally show ?thesis .
    qed
  qed
qed

text \<open>
  C8. \<open>DestroyGLTextures\<close> is to free the GPU textures of the registered entries.
  Its loop calls \<open>glGenTextures\<close> on each entry's \<open>ID\<close>, not \<open>glDeleteTextures\<close>: after
  one texture is loaded into a new scene manager, the release deletes nothing
  (\<open>DestroyGLTextures_loop_never_deletes\<close> shows that for every state), texture 1 still
  holds its storage and a second name has been generated over the entry's \<open>ID\<close>.
\<close>

theorem DestroyGLTextures_frees_nothing:
  "\<exists>s1 s2. CreateGLTexture (Some \<lparr> width = 1, height = 1, colorChannels = 3 \<rparr>) ''table''
              (SceneManager_new sh) = Inr (True, s1) \<and>
           DestroyGLTextures s1 = Inr s2 \<and>
           liveTextures (gl s1) = [1] \<and>
           deletedTextures (gl s2) = [] \<and>
           liveTextures (gl s2) = [1, 2]"
  by (simp add: CreateGLTexture_def SceneManager_new_def glGenTextures_def Let_def
      DestroyGLTextures_def DestroyGLTextures_loop.simps liveTextures_def)

section \<open>Properties of the shader state binder\<close>

lemma SetShaderColor_attached:
  assumes "m_pShaderManager s = Some sh"
  shows "\<exists>sh'. m_pShaderManager (SetShaderColor r g b a s) = Some sh' \<and>
               currentUniform sh' g_UseTextureName = Some (IntValue 0)"
  using assms
  by (simp add: SetShaderColor_def setIntValue_def setVec4Value_def currentUniform_def
      g_UseTextureName_def g_ColorValueName_def)

lemma SetShaderColor_registry [simp]:
  "m_textureIDs (SetShaderColor r g b a s) = m_textureIDs s"
  "m_loadedTextures (SetShaderColor r g b a s) = m_loadedTextures s"
  by (simp_all add: SetShaderColor_def split: option.splits)

lemma SetShaderTexture_attached:
  assumes ok: "registry_ok s" and sh: "m_pShaderManager s = Some sh"
  shows "\<exists>s' sh'. SetShaderTexture textureTag s = Inr s' \<and> registry_ok s' \<and>
           m_pShaderManager s' = Some sh' \<and>
           currentUniform sh' g_UseTextureName = Some (IntValue 1)"
proof -
  obtain k where "FindTextureSlot s textureTag = Inr k"
    by (rule FindTextureSlot_cases [OF ok, of textureTag]) blast+
  then show ?thesis
    using ok sh
    by (simp add: SetShaderTexture_def setIntValue_def setSampler2DValue_def currentUniform_def
        g_UseTextureName_def g_TextureValueName_def registry_ok_def)
qed

lemma binder_step_attached:
  assumes ok: "registry_ok s" and sh: "m_pShaderManager s = Some sh"
  shows "\<exists>s' sh'. binder_step c s = Inr s' \<and> registry_ok s' \<and>
           m_pShaderManager s' = Some sh' \<and>
           currentUniform sh' g_UseTextureName = Some (IntValue (texture_mode c))"
proof (cases c)
  case (ShaderColor r g b a)
  from SetShaderColor_attached [OF sh, of r g b a] ok ShaderColor show ?thesis
    by (auto simp: registry_ok_def)
next
  case (ShaderTexture textureTag)
  from SetShaderTexture_attached [OF ok sh, of textureTag] ShaderTexture show ?thesis
    by auto
qed

text \<open>
  C4. With a shader attached, after any non-empty sequence of \<open>SetShaderColor\<close> and
  \<open>SetShaderTexture\<close> calls the uniform \<open>bUseTexture\<close> holds the mode of the last call:
  1 if it was \<open>SetShaderTexture\<close>, 0 if it was \<open>SetShaderColor\<close>. The flag is one
  uniform, so the two modes are never on together.
\<close>

theorem texture_flag_last_write_wins:
  assumes "registry_ok s" and "m_pShaderManager s = Some sh" and "calls \<noteq> []"
  shows "\<exists>s' sh'. binder_calls calls s = Inr s' \<and> m_pShaderManager s' = Some sh' \<and>
           currentUniform sh' g_UseTextureName = Some (IntValue (texture_mode (last calls)))"
  using assms
proof (induction calls arbitrary: s sh)
  case Nil
  then show ?case by simp
next
  case (Cons c cs)
  from binder_step_attached [OF Cons.prems(1,2), of c] obtain s1 sh1 where
    step: "binder_step c s = Inr s1" and ok1: "registry_ok s1"
    and sh1: "m_pShaderManager s1 = Some sh1"
    and flag: "currentUniform sh1 g_UseTextureName = Some (IntValue (texture_mode c))"
    by blast
  show ?case
  proof (cases cs)
    case Nil
    with step sh1 flag show ?thesis by simp
  next
    case (Cons c' cs')
    then have "cs \<noteq> []" by simp
    from Cons.IH [OF ok1 sh1 this] step \<open>cs \<noteq> []\<close> show ?thesis by simp
  qed
qed

theorem texture_flag_last_write_wins_witness:
  "(\<exists>s' sh'. binder_calls [ShaderColor 1 0 0 1, ShaderTexture ''table'']
                (SceneManager_new (Some [])) = Inr s' \<and>
              m_pShaderManager s' = Some sh' \<and>
              currentUniform sh' g_UseTextureName = Some (IntValue 1)) \<and>
   (\<exists>s' sh'. binder_calls [ShaderTexture ''table'', ShaderColor 1 0 0 1]
                (SceneManager_new (Some [])) = Inr s' \<and>
              m_pShaderManager s' = Some sh' \<and>
              currentUniform sh' g_UseTextureName = Some (IntValue 0))"
  using texture_flag_last_write_wins [of "SceneManager_new (Some [])" "[]"
            "[ShaderColor 1 0 0 1, ShaderTexture ''table'']"]
        texture_flag_last_write_wins [of "SceneManager_new (Some [])" "[]"
            "[ShaderTexture ''table'', ShaderColor 1 0 0 1]"]
        SceneManager_new_registry_ok [of "Some []"]
  by simp

lemma SetShaderMaterial_no_shader:
  assumes "m_objectMaterials s \<noteq> []" and "m_pShaderManager s = None"
  shows "SetShaderMaterial uninitialised materialTag s = Inl NullPointerDereference"
  using assms by (simp add: SetShaderMaterial_def FindMaterial_def)

lemma binder_null_shader_noop:
  assumes "m_pShaderManager s = None"
  shows "SetShaderColor r g b a s = s" and "SetShaderTexture textureTag s = Inr s"
    and "SetTextureUVScale u v s = s"
  using assms
  by (simp_all add: SetShaderColor_def SetShaderTexture_def SetTextureUVScale_def)

text \<open>
  C7. With no shader attached (\<open>m_pShaderManager\<close> null), every binder operation is
  to do nothing. \<open>SetShaderColor\<close>, \<open>SetShaderTexture\<close> and \<open>SetTextureUVScale\<close>
  test the pointer and do nothing (\<open>binder_null_shader_noop\<close>).
  \<open>SetShaderMaterial\<close> does not test it: once materials are defined it calls
  \<open>setVec3Value\<close> through the null pointer.
\<close>

theorem SetShaderMaterial_null_shader_faults:
  "SetShaderMaterial uninitialised ''ball'' (DefineObjectMaterials (SceneManager_new None)) =
     Inl NullPointerDereference"
  by (rule SetShaderMaterial_no_shader) (simp_all add: DefineObjectMaterials_nonempty)

text \<open>
  C2. For a tag that no material has, \<open>SetShaderMaterial\<close> is to write no uniform.
  With the four materials of \<open>DefineObjectMaterials\<close> and the tag \<open>glass\<close>,
  \<open>FindMaterial\<close> returns \<open>true\<close> all the same, and \<open>SetShaderMaterial\<close> writes the
  three material uniforms from its uninitialised local \<open>material\<close>.
\<close>

theorem SetShaderMaterial_unmatched_writes:
  "SetShaderMaterial uninitialised ''glass'' (DefineObjectMaterials (SceneManager_new (Some []))) =
     Inr ((DefineObjectMaterials (SceneManager_new (Some [])))
            \<lparr> m_pShaderManager :=
                 Some [(''material.diffuseColor'', Vec3Value (diffuseColor uninitialised)),
                       (''material.specularColor'', Vec3Value (specularColor uninitialised)),
                       (''material.shininess'', FloatValue (shininess uninitialised))] \<rparr>)"
proof -
  let ?s = "DefineObjectMaterials (SceneManager_new (Some []))"
  have tags: "map material_tag (m_objectMaterials ?s) = [''ball'', ''wood'', ''mug'', ''metal'']"
    by (simp add: DefineObjectMaterials_tags)
  have "''glass'' \<notin> set (map material_tag (m_objectMaterials ?s))"
    unfolding tags by simp
  then have loop: "FindMaterial_loop (m_objectMaterials ?s) ''glass'' 0 False uninitialised = uninitialised"
    by (rule FindMaterial_loop_absent)
  have ne: "m_objectMaterials ?s \<noteq> []" by (rule DefineObjectMaterials_nonempty)
  show ?thesis
    using loop ne
    by (simp add: SetShaderMaterial_def FindMaterial_def setVec3Value_def setFloatValue_def)
qed

end
